theory Spec2Isabelle
  imports Main
begin

section \<open>JavaScript values\<close>

text \<open>
  The three services (\<^verbatim>\<open>eppoService.js\<close>, \<^verbatim>\<open>hightouchService.js\<close>, \<^verbatim>\<open>brazeService.js\<close>) work on
  untyped JSON-like data. A value is one of the JavaScript primitives, an array or a plain
  object. Numbers are the integer-valued ones (HTTP statuses, counts); fractions and NaN are
  outside the model. A plain object and a \<^verbatim>\<open>Map\<close> both keep their string keys in insertion
  order, so both are association lists; a write to a key that exists keeps the key's position.
  (An object enumerates integer-like keys before the others; that is not modelled, and no
  property below turns on the order of the keys of an object.) Thrown errors, rejected promises
  included, are values: an operation that can throw yields \<open>Inl\<close> of the error or \<open>Inr\<close> of
  its result.
\<close>

datatype jsval =
    JUndefined
  | JNull
  | JBool bool
  | JNum int
  | JStr string
  | JArr "jsval list"
  | JObj "(string \<times> jsval) list"

type_synonym jsobj = "(string \<times> jsval) list"

type_synonym 'v jsmap = "(string \<times> 'v) list"

text \<open>\<^verbatim>\<open>Map.get\<close>: \<open>None\<close> stands for \<^verbatim>\<open>undefined\<close>. A read returns a value only and
  leaves the map as it is.\<close>

definition map_get :: "'v jsmap \<Rightarrow> string \<Rightarrow> 'v option" where
  "map_get m k = map_of m k"

text \<open>\<^verbatim>\<open>Map.set\<close> and the write of an object property: an existing key is overwritten where it
  stands, a new key goes to the end.\<close>

fun map_set :: "'v jsmap \<Rightarrow> string \<Rightarrow> 'v \<Rightarrow> 'v jsmap" where
  "map_set [] k v = [(k, v)]"
| "map_set ((k', v') # m) k v =
     (if k' = k then (k, v) # m else (k', v') # map_set m k v)"

text \<open>\<^verbatim>\<open>Map.delete\<close> and the \<^verbatim>\<open>delete\<close> operator.\<close>

definition map_delete :: "'v jsmap \<Rightarrow> string \<Rightarrow> 'v jsmap" where
  "map_delete m k = filter (\<lambda>kv. fst kv \<noteq> k) m"

text \<open>\<^verbatim>\<open>Map.keys().next().value\<close>: the key inserted first among those still present.\<close>

definition first_key :: "'v jsmap \<Rightarrow> string option" where
  "first_key m = (case m of [] \<Rightarrow> None | kv # _ \<Rightarrow> Some (fst kv))"

text \<open>Reading a property of an object: a missing property reads as \<^verbatim>\<open>undefined\<close>.\<close>

definition field :: "jsobj \<Rightarrow> string \<Rightarrow> jsval" where
  "field obj k = (case map_of obj k of None \<Rightarrow> JUndefined | Some v \<Rightarrow> v)"

text \<open>Object spread \<^verbatim>\<open>{...a, ...b}\<close>: the properties of \<open>b\<close> are written onto \<open>a\<close> in order.\<close>

definition obj_merge :: "jsobj \<Rightarrow> jsobj \<Rightarrow> jsobj" where
  "obj_merge a b = foldl (\<lambda>acc kv. map_set acc (fst kv) (snd kv)) a b"

text \<open>Truthiness, and the operator \<^verbatim>\<open>||\<close>, which yields its left operand when that is truthy
  and its right operand otherwise (the operand itself, not a boolean).\<close>

fun truthy :: "jsval \<Rightarrow> bool" where
  "truthy JUndefined = False"
| "truthy JNull = False"
| "truthy (JBool b) = b"
| "truthy (JNum n) = (n \<noteq> 0)"
| "truthy (JStr s) = (s \<noteq> [])"
| "truthy (JArr xs) = True"
| "truthy (JObj kvs) = True"

definition js_or :: "jsval \<Rightarrow> jsval \<Rightarrow> jsval" where
  "js_or a b = (if truthy a then a else b)"

text \<open>Decimal rendering of a number, as a template literal prints it.\<close>

fun digits :: "nat \<Rightarrow> string" where
  "digits n =
     (if n < 10 then [''0123456789'' ! n]
      else digits (n div 10) @ [''0123456789'' ! (n mod 10)])"

declare digits.simps [simp del]

definition string_of_int :: "int \<Rightarrow> string" where
  "string_of_int i = (if i < 0 then CHR ''-'' # digits (nat (- i)) else digits (nat i))"

fun join_comma :: "string list \<Rightarrow> string" where
  "join_comma [] = []"
| "join_comma [s] = s"
| "join_comma (s # t # ss) = s @ '','' @ join_comma (t # ss)"

text \<open>String conversion inside a template literal \<^verbatim>\<open>`${v}`\<close>.\<close>

fun to_string :: "jsval \<Rightarrow> string" where
  "to_string JUndefined = ''undefined''"
| "to_string JNull = ''null''"
| "to_string (JBool b) = (if b then ''true'' else ''false'')"
| "to_string (JNum n) = string_of_int n"
| "to_string (JStr s) = s"
| "to_string (JArr xs) =
     join_comma (map (\<lambda>x. if x = JUndefined \<or> x = JNull then [] else to_string x) xs)"
| "to_string (JObj kvs) = ''[object Object]''"

text \<open>Spreading a value into an object literal: an object contributes its properties,
  \<^verbatim>\<open>undefined\<close>, \<^verbatim>\<open>null\<close>, numbers and booleans contribute nothing, a string or an array
  contributes its elements under their indices.\<close>

definition indexed :: "jsval list \<Rightarrow> jsobj" where
  "indexed xs = map (\<lambda>i. (digits i, xs ! i)) [0..<length xs]"

fun spread :: "jsval \<Rightarrow> jsobj" where
  "spread (JObj kvs) = kvs"
| "spread (JArr xs) = indexed xs"
| "spread (JStr s) = indexed (map (\<lambda>c. JStr [c]) s)"
| "spread v = []"

text \<open>\<^verbatim>\<open>Object.keys\<close> on a value that is neither \<^verbatim>\<open>undefined\<close> nor \<^verbatim>\<open>null\<close>.\<close>

definition object_keys :: "jsval \<Rightarrow> string list" where
  "object_keys v = map fst (spread v)"

text \<open>Reading a property of an arbitrary value: \<^verbatim>\<open>undefined\<close> and \<^verbatim>\<open>null\<close> have no
  properties and the read raises a TypeError; the read of a named property of a primitive or an
  array gives \<^verbatim>\<open>undefined\<close>.\<close>

record http_response =
  status :: int
  data :: jsval

datatype js_error = JsError (message: string) (response: "http_response option")

definition get_prop :: "jsval \<Rightarrow> string \<Rightarrow> js_error + jsval" where
  "get_prop v k =
     (case v of
        JUndefined \<Rightarrow>
          Inl (JsError (''Cannot read properties of undefined (reading '' @ [CHR 0x27] @ k @ [CHR 0x27] @ '')'') None)
      | JNull \<Rightarrow>
          Inl (JsError (''Cannot read properties of null (reading '' @ [CHR 0x27] @ k @ [CHR 0x27] @ '')'') None)
      | JObj kvs \<Rightarrow> Inr (field kvs k)
      | _ \<Rightarrow> Inr JUndefined)"

section \<open>The assignment tracker (eppoService.js)\<close>

text \<open>
  The flag-evaluation SDK is outside the repository. One call of a client method is described
  by what the service can observe of it: the assignment events the SDK hands to the registered
  logger during the call (each with the clock reading at that moment), and then either the
  returned value or the error thrown.
\<close>

record provider_call =
  events :: "(string \<times> jsobj) list"
  outcome :: "js_error + jsval"

record eppo_client =
  sdk_getStringAssignment :: "jsval \<Rightarrow> jsval \<Rightarrow> jsval \<Rightarrow> jsval \<Rightarrow> provider_call"
  sdk_getBooleanAssignment :: "jsval \<Rightarrow> jsval \<Rightarrow> jsval \<Rightarrow> jsval \<Rightarrow> provider_call"
  sdk_getNumericAssignment :: "jsval \<Rightarrow> jsval \<Rightarrow> jsval \<Rightarrow> jsval \<Rightarrow> provider_call"
  assignmentLogger :: jsval
  assignmentCache :: jsval
  x_assignmentCache :: jsval

record request =
  flagKey :: jsval
  userId :: jsval
  userAttributes :: jsval

text \<open>The fields of \<^verbatim>\<open>EppoService\<close>. The values of \<^verbatim>\<open>recentAssignments\<close> are always
  object literals (lines 31-35 and 116-119), so the map holds objects.\<close>

record eppo_service =
  client :: "eppo_client option"
  initialized :: bool
  recentAssignments :: "jsobj jsmap"
  assignmentLoggerCalled :: bool
  currentRequest :: "request option"

text \<open>The constructor.\<close>

definition new_EppoService :: eppo_service where
  "new_EppoService =
     \<lparr>client = None, initialized = False, recentAssignments = [],
      assignmentLoggerCalled = False, currentRequest = None\<rparr>"

text \<open>The logger registered with the SDK (lines 22-44). \<open>now\<close> is the clock reading
  \<^verbatim>\<open>new Date().toISOString()\<close>.\<close>

definition sink_flagKey :: "jsobj \<Rightarrow> eppo_service \<Rightarrow> jsval" where
  "sink_flagKey assignment st =
     js_or (field assignment ''flagKey'')
       (case currentRequest st of Some r \<Rightarrow> flagKey r | None \<Rightarrow> JStr ''unknown'')"

definition sink_subject :: "jsobj \<Rightarrow> eppo_service \<Rightarrow> jsval" where
  "sink_subject assignment st =
     js_or (field assignment ''subject'')
       (case currentRequest st of Some r \<Rightarrow> userId r | None \<Rightarrow> JStr ''unknown'')"

definition sink_key :: "jsobj \<Rightarrow> eppo_service \<Rightarrow> string" where
  "sink_key assignment st =
     to_string (sink_subject assignment st) @ '':'' @ to_string (sink_flagKey assignment st)"

definition assignmentToStore :: "string \<Rightarrow> jsobj \<Rightarrow> eppo_service \<Rightarrow> jsobj" where
  "assignmentToStore now assignment st =
     map_set (map_set assignment ''flagKey'' (sink_flagKey assignment st))
       ''timestamp'' (js_or (field assignment ''timestamp'') (JStr now))"

definition evict :: "'v jsmap \<Rightarrow> 'v jsmap" where
  "evict m =
     (if length m > 100
      then (case first_key m of None \<Rightarrow> m | Some firstKey \<Rightarrow> map_delete m firstKey)
      else m)"

definition logAssignment :: "string \<Rightarrow> jsobj \<Rightarrow> eppo_service \<Rightarrow> eppo_service" where
  "logAssignment now assignment st =
     st\<lparr>assignmentLoggerCalled := True,
        recentAssignments :=
          evict (map_set (recentAssignments st) (sink_key assignment st)
                   (assignmentToStore now assignment st))\<rparr>"

text \<open>The events of one SDK call reach the logger one after the other.\<close>

fun deliver :: "(string \<times> jsobj) list \<Rightarrow> eppo_service \<Rightarrow> eppo_service" where
  "deliver [] st = st"
| "deliver (ev # evs) st = deliver evs (logAssignment (fst ev) (snd ev) st)"

text \<open>\<^verbatim>\<open>initializeEppo\<close> (lines 12-76). \<open>sdk_key\<close> is the environment variable
  \<^verbatim>\<open>EPPO_SDK_KEY\<close>; \<open>sdk\<close> is the outcome of \<^verbatim>\<open>EppoSdk.init\<close> followed by
  \<^verbatim>\<open>EppoSdk.getInstance\<close>. The two cache fields of the client are overwritten with
  \<^verbatim>\<open>false\<close> when they are defined (lines 56-62).\<close>

definition env_set :: "string option \<Rightarrow> bool" where
  "env_set v = (case v of None \<Rightarrow> False | Some s \<Rightarrow> s \<noteq> [])"

definition disable_cache :: "eppo_client \<Rightarrow> eppo_client" where
  "disable_cache c =
     c\<lparr>assignmentCache := (if assignmentCache c \<noteq> JUndefined then JBool False else assignmentCache c),
       x_assignmentCache := (if x_assignmentCache c \<noteq> JUndefined then JBool False else x_assignmentCache c)\<rparr>"

definition initializeEppo ::
  "string option \<Rightarrow> js_error + eppo_client \<Rightarrow> eppo_service \<Rightarrow> (js_error + unit) \<times> eppo_service" where
  "initializeEppo sdk_key sdk st =
     (if \<not> env_set sdk_key
      then (Inl (JsError ''EPPO_SDK_KEY environment variable is required'' None),
            st\<lparr>initialized := False\<rparr>)
      else (case sdk of
              Inl error \<Rightarrow> (Inl error, st\<lparr>initialized := False\<rparr>)
            | Inr c \<Rightarrow> (Inr (), st\<lparr>client := Some (disable_cache c), initialized := True\<rparr>)))"

text \<open>\<^verbatim>\<open>getAssignment\<close> (lines 78-176), the operation the specification calls \<open>resolve\<close>.
  \<open>clock i\<close> is the \<open>i\<close>-th clock reading taken by the call. The result is the object returned,
  or the error thrown (\<open>Inl\<close>), together with the service afterwards.\<close>

definition assignmentKey :: "jsval \<Rightarrow> jsval \<Rightarrow> string" where
  "assignmentKey uid fk = to_string uid @ '':'' @ to_string fk"

definition undefinedKey :: "jsval \<Rightarrow> string" where
  "undefinedKey uid = to_string uid @ '':undefined''"

text \<open>Lines 107-125: the lookup under the correct key, then under the key that ends in
  \<^verbatim>\<open>undefined\<close>, with the repair of the stored record.\<close>

definition lookupStored ::
  "jsobj jsmap \<Rightarrow> jsval \<Rightarrow> jsval \<Rightarrow> jsobj option \<times> jsobj jsmap" where
  "lookupStored m uid fk =
     (case map_get m (assignmentKey uid fk) of
        Some assignmentDetails \<Rightarrow> (Some assignmentDetails, m)
      | None \<Rightarrow>
          (case map_get m (undefinedKey uid) of
             None \<Rightarrow> (None, m)
           | Some storedWithUndefinedKey \<Rightarrow>
               (let assignmentDetails = map_set storedWithUndefinedKey ''flagKey'' fk
                in (Some assignmentDetails,
                    map_delete (map_set m (assignmentKey uid fk) assignmentDetails)
                      (undefinedKey uid)))))"

definition fallbackDetails ::
  "string \<Rightarrow> jsval \<Rightarrow> jsval \<Rightarrow> jsval \<Rightarrow> eppo_service \<Rightarrow> jsobj" where
  "fallbackDetails now fk uid assignment st =
     [(''flagKey'', fk),
      (''allocation'', JNull),
      (''variation'', assignment),
      (''subject'', uid),
      (''experiment'', JNull),
      (''featureFlag'', JNull),
      (''timestamp'', JStr now),
      (''debug'', JObj
         [(''assignmentLoggerFired'', JBool (assignmentLoggerCalled st)),
          (''storedAssignmentsCount'', JNum (int (length (recentAssignments st)))),
          (''lookupKey'', JStr (assignmentKey uid fk)),
          (''note'', JStr (if assignmentLoggerCalled st
                           then ''Logger fired but assignment not found in storage''
                           else ''Assignment logger did not fire - may be cached or default assignment''))])]"

definition uninitialized_result :: "string \<Rightarrow> jsval \<Rightarrow> jsval \<Rightarrow> jsval \<Rightarrow> jsobj" where
  "uninitialized_result now fk uid ua =
     [(''assignment'', JNull),
      (''flagKey'', fk),
      (''userId'', uid),
      (''userAttributes'', ua),
      (''initialized'', JBool False),
      (''assignmentDetails'', JNull),
      (''timestamp'', JStr now)]"

definition clientInfo :: "eppo_client \<Rightarrow> eppo_service \<Rightarrow> jsobj" where
  "clientInfo c st =
     [(''initialized'', JBool (initialized st)),
      (''hasClient'', JBool True),
      (''sdkVersion'', JStr ''node-server-sdk-3.11.0''),
      (''hasAssignmentLogger'', JBool (truthy (assignmentLogger c))),
      (''cacheDisabled'', JBool (assignmentCache c = JBool False \<or> x_assignmentCache c = JBool False))]"

definition default_attrs :: "jsval \<Rightarrow> jsval" where
  "default_attrs ua = (if ua = JUndefined then JObj [] else ua)"

definition getAssignment ::
  "(nat \<Rightarrow> string) \<Rightarrow> jsval \<Rightarrow> jsval \<Rightarrow> jsval \<Rightarrow> eppo_service
     \<Rightarrow> (js_error + jsobj) \<times> eppo_service" where
  "getAssignment clock fk uid ua0 st =
     (let ua = default_attrs ua0 in
      case client st of
        None \<Rightarrow> (Inr (uninitialized_result (clock 0) fk uid ua), st)
      | Some c \<Rightarrow>
          if \<not> initialized st then (Inr (uninitialized_result (clock 0) fk uid ua), st)
          else
            (let st1 = st\<lparr>assignmentLoggerCalled := False,
                         currentRequest := Some \<lparr>flagKey = fk, userId = uid, userAttributes = ua\<rparr>\<rparr>;
                 call = sdk_getStringAssignment c fk uid ua JNull;
                 st2 = deliver (events call) st1
             in case outcome call of
                  Inl error \<Rightarrow>
                    (Inr [(''assignment'', JNull),
                          (''flagKey'', fk),
                          (''userId'', uid),
                          (''userAttributes'', ua),
                          (''assignmentDetails'', JNull),
                          (''error'', JStr (message error)),
                          (''timestamp'', JStr (clock 0))],
                     st2)
                | Inr assignment \<Rightarrow>
                    (let found = lookupStored (recentAssignments st2) uid fk;
                         st3 = st2\<lparr>recentAssignments := snd found\<rparr>;
                         fallback = fallbackDetails (clock 0) fk uid assignment st3;
                         st4 = st3\<lparr>currentRequest := None\<rparr>
                     in (Inr [(''assignment'', assignment),
                              (''flagKey'', fk),
                              (''userId'', uid),
                              (''userAttributes'', ua),
                              (''assignmentDetails'',
                                 JObj (case fst found of Some d \<Rightarrow> d | None \<Rightarrow> fallback)),
                              (''clientInfo'', JObj (clientInfo c st4)),
                              (''timestamp'', JStr (clock 1))],
                         st4))))"

text \<open>\<^verbatim>\<open>getBooleanAssignment\<close> and \<^verbatim>\<open>getNumericAssignment\<close> (lines 178-206). The registered
  logger belongs to the SDK client, so the events of the typed call reach it as well.\<close>

definition typed_assignment ::
  "(eppo_client \<Rightarrow> jsval \<Rightarrow> jsval \<Rightarrow> jsval \<Rightarrow> jsval \<Rightarrow> provider_call)
     \<Rightarrow> jsval \<Rightarrow> jsval \<Rightarrow> jsval \<Rightarrow> jsval \<Rightarrow> eppo_service \<Rightarrow> (js_error + jsval) \<times> eppo_service" where
  "typed_assignment method fk uid ua defaultValue st =
     (case client st of
        None \<Rightarrow> (Inr defaultValue, st)
      | Some c \<Rightarrow>
          if \<not> initialized st then (Inr defaultValue, st)
          else
            (let call = method c fk uid ua defaultValue;
                 st1 = deliver (events call) st
             in case outcome call of
                  Inl error \<Rightarrow> (Inr defaultValue, st1)
                | Inr assignment \<Rightarrow> (Inr assignment, st1)))"

definition getBooleanAssignment ::
  "jsval \<Rightarrow> jsval \<Rightarrow> jsval \<Rightarrow> jsval \<Rightarrow> eppo_service \<Rightarrow> (js_error + jsval) \<times> eppo_service" where
  "getBooleanAssignment fk uid ua0 defaultValue0 st =
     typed_assignment sdk_getBooleanAssignment fk uid (default_attrs ua0)
       (if defaultValue0 = JUndefined then JBool False else defaultValue0) st"

definition getNumericAssignment ::
  "jsval \<Rightarrow> jsval \<Rightarrow> jsval \<Rightarrow> jsval \<Rightarrow> eppo_service \<Rightarrow> (js_error + jsval) \<times> eppo_service" where
  "getNumericAssignment fk uid ua0 defaultValue0 st =
     typed_assignment sdk_getNumericAssignment fk uid (default_attrs ua0)
       (if defaultValue0 = JUndefined then JNum 0 else defaultValue0) st"

text \<open>The services a process can be in: the constructed service, and whatever follows from
  it by initialisation, by a logger call and by the three assignment operations.\<close>

inductive reachable :: "eppo_service \<Rightarrow> bool" where
  constructed: "reachable new_EppoService"
| initialised: "reachable st \<Longrightarrow> reachable (snd (initializeEppo sdk_key sdk st))"
| logged: "reachable st \<Longrightarrow> reachable (logAssignment now assignment st)"
| resolved: "reachable st \<Longrightarrow> reachable (snd (getAssignment clock fk uid ua st))"
| resolved_boolean: "reachable st \<Longrightarrow> reachable (snd (getBooleanAssignment fk uid ua dv st))"
| resolved_numeric: "reachable st \<Longrightarrow> reachable (snd (getNumericAssignment fk uid ua dv st))"

text \<open>The bound and the key discipline of \<^verbatim>\<open>recentAssignments\<close>.\<close>

definition cache_ok :: "'v jsmap \<Rightarrow> bool" where
  "cache_ok m \<longleftrightarrow> length m \<le> 100 \<and> distinct (map fst m)"

section \<open>The attribute enricher (hightouchService.js)\<close>

text \<open>
  \<^verbatim>\<open>axios.get\<close> is a parameter: given the URL and the request configuration it yields the
  response or the error it rejects with (an HTTP error carries the response, a network error or
  a timeout carries none). An \<^verbatim>\<open>async\<close> function yields the value its promise resolves to
  (\<open>Inr\<close>) or the error it rejects with (\<open>Inl\<close>); \<^verbatim>\<open>await\<close> passes a rejection on.
\<close>

type_synonym transport = "string \<Rightarrow> jsval \<Rightarrow> js_error + http_response"

record hightouch_service =
  ht_apiKey :: "string option"
  ht_baseUrl :: string
  ht_collectionName :: string

definition env_str :: "string option \<Rightarrow> string" where
  "env_str v = (case v of None \<Rightarrow> ''undefined'' | Some s \<Rightarrow> s)"

definition env_or :: "string option \<Rightarrow> string \<Rightarrow> string" where
  "env_or v d = (if env_set v then env_str v else d)"

definition new_HightouchService ::
  "string option \<Rightarrow> string option \<Rightarrow> string option \<Rightarrow> hightouch_service" where
  "new_HightouchService api_key api_url collection_name =
     \<lparr>ht_apiKey = api_key,
      ht_baseUrl = env_or api_url ''https://personalization.us-west-2.hightouch.com'',
      ht_collectionName = env_or collection_name ''customers''\<rparr>"

definition prop_of :: "jsval \<Rightarrow> string \<Rightarrow> jsval" where
  "prop_of v k = (case v of JObj kvs \<Rightarrow> field kvs k | _ \<Rightarrow> JUndefined)"

definition lookup_url :: "hightouch_service \<Rightarrow> jsval \<Rightarrow> string" where
  "lookup_url svc uid =
     ht_baseUrl svc @ ''/v1/collections/'' @ ht_collectionName svc @ ''/records/id/'' @ to_string uid"

definition lookup_config :: "hightouch_service \<Rightarrow> jsval" where
  "lookup_config svc =
     JObj [(''headers'', JObj [(''Authorization'', JStr (''Bearer '' @ env_str (ht_apiKey svc))),
                               (''Content-Type'', JStr ''application/json'')]),
           (''timeout'', JNum 5000)]"

text \<open>Conversion of a value to a string can fail: a plain object with an own property
  \<^verbatim>\<open>toString\<close> (which in JSON-like data is never a function) has no usable conversion,
  and neither has an array with such an element; the conversion then raises a TypeError.
  The enricher writes the user id into its log lines with template literals, so each of these
  lines raises for such a user id. The output of the console is not modelled, the failure is.\<close>

fun convertible :: "jsval \<Rightarrow> bool" where
  "convertible (JObj kvs) = (''toString'' \<notin> set (map fst kvs))"
| "convertible (JArr xs) = list_all convertible xs"
| "convertible v = True"

definition template :: "jsval \<Rightarrow> js_error + string" where
  "template v =
     (if convertible v then Inr (to_string v)
      else Inl (JsError ''Cannot convert object to primitive value'' None))"

text \<open>The \<^verbatim>\<open>try\<close> block of \<^verbatim>\<open>getUserAudiences\<close> (lines 21-56). Its first statement logs
  the user id (line 22). The first property read of the response body raises when the body is
  \<^verbatim>\<open>undefined\<close> or \<^verbatim>\<open>null\<close>; once it has succeeded the later reads cannot raise, and the
  log line of line 50 converts the same user id again.\<close>

definition lookup_audiences :: "transport \<Rightarrow> hightouch_service \<Rightarrow> jsval \<Rightarrow> js_error + jsobj" where
  "lookup_audiences http_get svc uid =
     (case template uid of
        Inl error \<Rightarrow> Inl error
      | Inr user \<Rightarrow>
          (case http_get (lookup_url svc uid) (lookup_config svc) of
             Inl error \<Rightarrow> Inl error
           | Inr resp \<Rightarrow>
               (let userData = data resp in
                case get_prop userData ''_audiences'' of
                  Inl error \<Rightarrow> Inl error
                | Inr aud \<Rightarrow>
                    (let audiences = js_or aud (JObj []);
                         attributes =
                           obj_merge
                             [(''lifetime_value'', prop_of userData ''lifetime_value''),
                              (''churn_risk'', prop_of userData ''churn_risk''),
                              (''tier'', prop_of userData ''tier''),
                              (''subscription_status'', prop_of userData ''subscription_status'')]
                             (spread (prop_of userData ''custom_attributes''))
                     in Inr [(''audiences'', audiences),
                             (''attributes'', JObj attributes),
                             (''found'', JBool True)]))))"

definition not_found :: "js_error \<Rightarrow> bool" where
  "not_found error = (case response error of None \<Rightarrow> False | Some r \<Rightarrow> status r = 404)"

text \<open>\<^verbatim>\<open>getUserAudiences\<close> (lines 15-69). Without an API key it warns (no user id in that
  line) and returns. Both arms of the \<^verbatim>\<open>catch\<close> block log the user id (lines 60 and 64)
  before they return; an error raised there leaves the function.\<close>

definition getUserAudiences :: "transport \<Rightarrow> hightouch_service \<Rightarrow> jsval \<Rightarrow> js_error + jsobj" where
  "getUserAudiences http_get svc uid =
     (if \<not> env_set (ht_apiKey svc)
      then Inr [(''audiences'', JObj []), (''attributes'', JObj [])]
      else (case lookup_audiences http_get svc uid of
              Inr result \<Rightarrow> Inr result
            | Inl error \<Rightarrow>
                if not_found error
                then (case template uid of
                        Inl raised \<Rightarrow> Inl raised
                      | Inr user \<Rightarrow>
                          Inr [(''audiences'', JObj []), (''attributes'', JObj []),
                               (''found'', JBool False)])
                else (case template uid of
                        Inl raised \<Rightarrow> Inl raised
                      | Inr user \<Rightarrow>
                          Inr [(''audiences'', JObj []), (''attributes'', JObj []),
                               (''found'', JBool False), (''error'', JStr (message error))])))"

text \<open>\<^verbatim>\<open>getEnrichedUserAttributes\<close> (lines 88-147), the operation the specification calls
  \<open>enrich\<close>. The two object literals are functions of the own properties of
  \<open>existingAttributes\<close>.\<close>

definition hightouch_attributes :: "jsobj \<Rightarrow> jsval \<Rightarrow> jsval \<Rightarrow> jsobj" where
  "hightouch_attributes existingAttributes attributes audiences =
     obj_merge (obj_merge existingAttributes (spread attributes))
       [(''premium_subscriber'', JBool (prop_of audiences ''premium_subscriber'' = JBool True)),
        (''high_value_customer'', JBool (prop_of audiences ''high_value_customer'' = JBool True)),
        (''at_risk_churn'', JBool (prop_of audiences ''at_risk_churn'' = JBool True))]"

definition fallback_attributes :: "jsobj \<Rightarrow> jsobj" where
  "fallback_attributes existingAttributes =
     obj_merge existingAttributes
       [(''premium_subscriber'',
           js_or (js_or (js_or (js_or (field existingAttributes ''premium_subscriber'')
                                      (field existingAttributes ''isPremium''))
                               (JBool (field existingAttributes ''subscription_tier'' = JStr ''premium'')))
                        (JBool (field existingAttributes ''subscriptionTier'' = JStr ''premium'')))
                 (JBool False)),
        (''high_value_customer'',
           js_or (js_or (js_or (js_or (field existingAttributes ''high_value_customer'')
                                      (field existingAttributes ''isHighValue''))
                               (JBool (field existingAttributes ''subscription_tier'' = JStr ''premium'')))
                        (JBool (field existingAttributes ''subscriptionTier'' = JStr ''premium'')))
                 (JBool False)),
        (''at_risk_churn'',
           js_or (js_or (js_or (js_or (field existingAttributes ''at_risk_churn'')
                                      (field existingAttributes ''isAtRisk''))
                               (JBool (field existingAttributes ''subscription_tier'' = JStr ''free'')))
                        (JBool (field existingAttributes ''subscriptionTier'' = JStr ''free'')))
                 (JBool False)),
        (''subscription_tier'',
           js_or (js_or (field existingAttributes ''subscription_tier'')
                        (field existingAttributes ''subscriptionTier''))
                 (field existingAttributes ''tier'')),
        (''user_segment'',
           js_or (field existingAttributes ''user_segment'') (field existingAttributes ''segment'')),
        (''country'', field existingAttributes ''country''),
        (''device_type'', field existingAttributes ''device_type''),
        (''_attribute_source'', JStr ''browser'')]"

text \<open>Lines 139-143: every key whose value reads as \<^verbatim>\<open>undefined\<close> or \<^verbatim>\<open>null\<close> is
  deleted.\<close>

definition nullish :: "jsval \<Rightarrow> bool" where
  "nullish v \<longleftrightarrow> v = JUndefined \<or> v = JNull"

definition strip_nullish :: "jsobj \<Rightarrow> jsobj" where
  "strip_nullish obj = filter (\<lambda>kv. \<not> nullish (field obj (fst kv))) obj"


text \<open>The function itself. The second argument is any value: the default parameter replaces
  \<^verbatim>\<open>undefined\<close> by the empty object and nothing else. Each branch logs the user id first
  (lines 95 and 107), and the last statement before the return logs it again (line 145). In
  the fallback branch the spread of line 109 accepts every value, and the property reads that
  follow (from line 111) raise a TypeError on \<^verbatim>\<open>null\<close>; on a string, a number, a boolean or
  an array the properties read there, all of them named, are \<^verbatim>\<open>undefined\<close>, as they are in
  the object of its spread properties.\<close>

definition getEnrichedUserAttributes ::
  "transport \<Rightarrow> hightouch_service \<Rightarrow> jsval \<Rightarrow> jsval \<Rightarrow> js_error + jsobj" where
  "getEnrichedUserAttributes http_get svc uid existingAttributes0 =
     (let existingAttributes = default_attrs existingAttributes0 in
      case getUserAudiences http_get svc uid of
        Inl error \<Rightarrow> Inl error
      | Inr result \<Rightarrow>
          (let audiences = field result ''audiences'';
               attributes = field result ''attributes'';
               found = field result ''found''
           in if truthy found \<and> length (object_keys audiences) > 0
              then (case template uid of
                      Inl error \<Rightarrow> Inl error
                    | Inr user \<Rightarrow>
                        Inr (strip_nullish
                               (hightouch_attributes (spread existingAttributes) attributes audiences)))
              else (case template uid of
                      Inl error \<Rightarrow> Inl error
                    | Inr user \<Rightarrow>
                        (case get_prop existingAttributes ''premium_subscriber'' of
                           Inl error \<Rightarrow> Inl error
                         | Inr explicit \<Rightarrow>
                             Inr (strip_nullish (fallback_attributes (spread existingAttributes)))))))"

section \<open>The campaign dispatcher (brazeService.js)\<close>












section \<open>Concrete scenarios\<close>

text \<open>A client whose string call fires no event and returns \<^verbatim>\<open>control\<close>, a stream of
  events for the users \<^verbatim>\<open>u\<close>, \<^verbatim>\<open>uu\<close>, \<^verbatim>\<open>uuu\<close>, ... on the flag \<^verbatim>\<open>flagX\<close>, and the
  service after initialisation and after its first hundred events.\<close>

definition demo_call :: provider_call where
  "demo_call = \<lparr>events = [], outcome = Inr (JStr ''control'')\<rparr>"

definition demo_client :: eppo_client where
  "demo_client =
     \<lparr>sdk_getStringAssignment = (\<lambda>fk uid ua d. demo_call),
      sdk_getBooleanAssignment = (\<lambda>fk uid ua d. \<lparr>events = [], outcome = Inr d\<rparr>),
      sdk_getNumericAssignment = (\<lambda>fk uid ua d. \<lparr>events = [], outcome = Inr d\<rparr>),
      assignmentLogger = JObj [],
      assignmentCache = JUndefined,
      x_assignmentCache = JUndefined\<rparr>"

definition demo_time :: string where
  "demo_time = ''2024-01-01T00:00:00.000Z''"




definition ready_service :: eppo_service where
  "ready_service = snd (initializeEppo (Some ''sdk-key'') (Inr demo_client) new_EppoService)"


text \<open>A property of the object an operation returned.\<close>

definition result_field :: "js_error + jsobj \<Rightarrow> string \<Rightarrow> jsval" where
  "result_field res k = (case res of Inr r \<Rightarrow> field r k | Inl error \<Rightarrow> JUndefined)"

text \<open>A client whose calls throw, a client whose calls fire the logger (the string call with a
  payload that names neither flag nor subject, the typed calls with a payload that names both),
  and a service whose cache holds one record under the key \<^verbatim>\<open>user1:undefined\<close>.\<close>

definition failing_call :: provider_call where
  "failing_call = \<lparr>events = [], outcome = Inl (JsError ''Network Error'' None)\<rparr>"

definition failing_client :: eppo_client where
  "failing_client =
     demo_client\<lparr>sdk_getStringAssignment := (\<lambda>fk uid ua d. failing_call),
                 sdk_getBooleanAssignment := (\<lambda>fk uid ua d. failing_call),
                 sdk_getNumericAssignment := (\<lambda>fk uid ua d. failing_call)\<rparr>"

definition bare_event :: jsobj where
  "bare_event = [(''variation'', JStr ''control'')]"

definition typed_event :: "jsval \<Rightarrow> jsval \<Rightarrow> jsval \<Rightarrow> jsobj" where
  "typed_event fk uid v = [(''subject'', uid), (''flagKey'', fk), (''variation'', v)]"

definition firing_client :: eppo_client where
  "firing_client =
     demo_client\<lparr>sdk_getStringAssignment :=
                   (\<lambda>fk uid ua d. \<lparr>events = [(demo_time, bare_event)], outcome = Inr (JStr ''control'')\<rparr>),
                 sdk_getBooleanAssignment :=
                   (\<lambda>fk uid ua d. \<lparr>events = [(demo_time, typed_event fk uid (JBool True))],
                                    outcome = Inr (JBool True)\<rparr>),
                 sdk_getNumericAssignment :=
                   (\<lambda>fk uid ua d. \<lparr>events = [(demo_time, typed_event fk uid (JNum 7))],
                                    outcome = Inr (JNum 7)\<rparr>)\<rparr>"

definition stale_event :: jsobj where
  "stale_event =
     [(''subject'', JStr ''user1''), (''flagKey'', JStr ''undefined''), (''variation'', JStr ''treatment'')]"

definition stale_record :: jsobj where
  "stale_record =
     [(''subject'', JStr ''user1''), (''flagKey'', JStr ''undefined''), (''variation'', JStr ''treatment''),
      (''timestamp'', JStr demo_time)]"

definition stale_service :: "eppo_client \<Rightarrow> eppo_service" where
  "stale_service c =
     logAssignment demo_time stale_event
       (snd (initializeEppo (Some ''sdk-key'') (Inr c) new_EppoService))"

section \<open>Notions of the specification\<close>

text \<open>The fallback branch of \<^verbatim>\<open>getEnrichedUserAttributes\<close> is taken when the audience lookup
  reports no user or no audience.\<close>

definition fallback_branch :: "transport \<Rightarrow> hightouch_service \<Rightarrow> jsval \<Rightarrow> bool" where
  "fallback_branch http_get svc uid =
     (case getUserAudiences http_get svc uid of
        Inl error \<Rightarrow> False
      | Inr result \<Rightarrow>
          \<not> (truthy (field result ''found'') \<and> length (object_keys (field result ''audiences'')) > 0))"

text \<open>The condition the specification states for a derived flag: one of the two explicit
  attributes is truthy, or one of the two tier attributes equals the given tier.\<close>

definition flag_holds :: "jsobj \<Rightarrow> string \<Rightarrow> string \<Rightarrow> string \<Rightarrow> bool" where
  "flag_holds ea flag alias tier \<longleftrightarrow>
     truthy (field ea flag) \<or> truthy (field ea alias) \<or>
     field ea ''subscription_tier'' = JStr tier \<or> field ea ''subscriptionTier'' = JStr tier"

text \<open>An explicit flag that is a boolean, or is absent.\<close>

definition boolean_or_missing :: "jsval \<Rightarrow> bool" where
  "boolean_or_missing v = (case v of JUndefined \<Rightarrow> True | JNull \<Rightarrow> True | JBool b \<Rightarrow> True | _ \<Rightarrow> False)"

text \<open>The value handed on under \<^verbatim>\<open>subscription_tier\<close> and under \<^verbatim>\<open>user_segment\<close>: the first
  truthy source, and the last source when none is truthy.\<close>

definition tier_source :: "jsobj \<Rightarrow> jsval" where
  "tier_source ea =
     (if truthy (field ea ''subscription_tier'') then field ea ''subscription_tier''
      else if truthy (field ea ''subscriptionTier'') then field ea ''subscriptionTier''
      else field ea ''tier'')"

definition segment_source :: "jsobj \<Rightarrow> jsval" where
  "segment_source ea =
     (if truthy (field ea ''user_segment'') then field ea ''user_segment'' else field ea ''segment'')"


text \<open>Transports that time out, that answer 404 and that fail every request with a given
  error; an enricher without and with its API key; a dispatcher with its configuration.\<close>

definition offline_get :: transport where
  "offline_get url config = Inl (JsError ''timeout of 5000ms exceeded'' None)"


definition unconfigured :: hightouch_service where
  "unconfigured = new_HightouchService None None None"






section \<open>Insertion-ordered maps\<close>

lemma map_get_set_same: "map_get (map_set m k v) k = Some v"
  by (induction m) (auto simp: map_get_def)

lemma map_get_set_other: "k' \<noteq> k \<Longrightarrow> map_get (map_set m k v) k' = map_get m k'"
  by (induction m) (auto simp: map_get_def)


lemma map_get_delete_other: "k' \<noteq> k \<Longrightarrow> map_get (map_delete m k) k' = map_get m k'"
  by (induction m) (auto simp: map_get_def map_delete_def)

lemma map_get_None_iff: "map_get m k = None \<longleftrightarrow> k \<notin> set (map fst m)"
  by (simp add: map_get_def map_of_eq_None_iff)

lemma keys_map_set:
  "map fst (map_set m k v) = (if k \<in> set (map fst m) then map fst m else map fst m @ [k])"
  by (induction m) (force simp: image_iff)+

lemma map_set_absent: "k \<notin> set (map fst m) \<Longrightarrow> map_set m k v = m @ [(k, v)]"
  by (induction m) auto

lemma length_map_set:
  "length (map_set m k v) = (if k \<in> set (map fst m) then length m else Suc (length m))"
  using arg_cong[OF keys_map_set, of length m k v] by (simp split: if_splits)

lemma distinct_map_set: "distinct (map fst m) \<Longrightarrow> distinct (map fst (map_set m k v))"
  by (simp add: keys_map_set)

lemma distinct_map_delete: "distinct (map fst m) \<Longrightarrow> distinct (map fst (map_delete m k))"
  by (simp add: map_delete_def distinct_map_filter)

lemma length_map_delete_present:
  assumes "k \<in> set (map fst m)"
  shows "length (map_delete m k) < length m"
proof -
  from assms obtain v where "(k, v) \<in> set m" by auto
  then show ?thesis unfolding map_delete_def
    by (intro length_filter_less[where x="(k, v)"]) simp_all
qed


lemma evict_bound:
  assumes that: "length m \<le> 101"
  shows "length (evict m) \<le> 100"
proof (cases m)
  case Nil
  then show ?thesis by (simp add: evict_def)
next
  case (Cons kv m')
  have "length (map_delete m (fst kv)) < length m"
    by (rule length_map_delete_present) (simp add: Cons)
  then show ?thesis using that Cons by (simp add: evict_def first_key_def)
qed

lemma distinct_evict: "distinct (map fst m) \<Longrightarrow> distinct (map fst (evict m))"
  by (auto simp: evict_def distinct_map_delete split: option.splits)

lemma cache_ok_insert: "cache_ok m \<Longrightarrow> cache_ok (evict (map_set m k v))"
proof -
  assume ok: "cache_ok m"
  have "length (map_set m k v) \<le> Suc (length m)" by (simp add: length_map_set)
  with ok have "length (map_set m k v) \<le> 101" by (simp add: cache_ok_def)
  then have "length (evict (map_set m k v)) \<le> 100" by (rule evict_bound)
  moreover have "distinct (map fst (evict (map_set m k v)))"
    using ok by (simp add: cache_ok_def distinct_evict distinct_map_set)
  ultimately show ?thesis by (simp add: cache_ok_def)
qed

subsection \<open>The cache stays within its bound\<close>

text \<open>Every operation of the service keeps the cache at 100 entries or fewer, with one entry
  for a key; so does every reachable service.\<close>

lemma logAssignment_cache_ok:
  "cache_ok (recentAssignments st) \<Longrightarrow> cache_ok (recentAssignments (logAssignment now a st))"
  by (simp add: logAssignment_def cache_ok_insert)

lemma deliver_cache_ok:
  "cache_ok (recentAssignments st) \<Longrightarrow> cache_ok (recentAssignments (deliver evs st))"
  by (induction evs arbitrary: st) (simp_all add: logAssignment_cache_ok)

lemma repair_cache_ok:
  assumes ok: "cache_ok m" and absent: "map_get m k1 = None" and present: "map_get m k2 = Some r"
  shows "cache_ok (map_delete (map_set m k1 d) k2)"
proof -
  have k1: "k1 \<notin> set (map fst m)" using absent by (simp add: map_get_None_iff)
  have k2: "k2 \<in> set (map fst m)" using present map_get_None_iff[of m k2] by auto
  have "k2 \<in> set (map fst (map_set m k1 d))" using k2 by (simp add: keys_map_set)
  then have "length (map_delete (map_set m k1 d) k2) < length (map_set m k1 d)"
    by (rule length_map_delete_present)
  also have "\<dots> = Suc (length m)" using k1 by (simp add: length_map_set)
  finally have "length (map_delete (map_set m k1 d) k2) \<le> length m" by simp
  moreover have "distinct (map fst (map_delete (map_set m k1 d) k2))"
    using ok by (simp add: cache_ok_def distinct_map_delete distinct_map_set)
  ultimately show ?thesis using ok by (simp add: cache_ok_def)
qed

lemma lookupStored_cache_ok: "cache_ok m \<Longrightarrow> cache_ok (snd (lookupStored m uid fk))"
  by (auto simp: lookupStored_def Let_def repair_cache_ok split: option.splits)

lemma getAssignment_cache_ok:
  "cache_ok (recentAssignments st) \<Longrightarrow>
   cache_ok (recentAssignments (snd (getAssignment clock fk uid ua st)))"
  by (auto simp: getAssignment_def Let_def lookupStored_cache_ok deliver_cache_ok
           split: option.splits sum.splits)

lemma typed_assignment_cache_ok:
  "cache_ok (recentAssignments st) \<Longrightarrow>
   cache_ok (recentAssignments (snd (typed_assignment method fk uid ua dv st)))"
  by (auto simp: typed_assignment_def Let_def deliver_cache_ok split: option.splits sum.splits)

lemma initializeEppo_cache:
  "recentAssignments (snd (initializeEppo sdk_key sdk st)) = recentAssignments st"
  by (simp add: initializeEppo_def split: sum.splits)

lemma reachable_cache_ok: "reachable st \<Longrightarrow> cache_ok (recentAssignments st)"
proof (induction rule: reachable.induct)
  case constructed
  show ?case by (simp add: new_EppoService_def cache_ok_def)
next
  case (initialised st sdk_key sdk)
  then show ?case by (simp add: initializeEppo_cache)
next
  case (logged st now assignment)
  then show ?case by (simp add: logAssignment_cache_ok)
next
  case (resolved st clock fk uid ua)
  then show ?case by (simp add: getAssignment_cache_ok)
next
  case (resolved_boolean st fk uid ua dv)
  then show ?case by (simp add: getBooleanAssignment_def typed_assignment_cache_ok)
next
  case (resolved_numeric st fk uid ua dv)
  then show ?case by (simp add: getNumericAssignment_def typed_assignment_cache_ok)
qed

section \<open>Resolution on a tracker that is not initialised\<close>

lemma getAssignment_uninitialized:
  "client st = None \<or> \<not> initialized st \<Longrightarrow>
   getAssignment clock fk uid ua st =
     (Inr (uninitialized_result (clock 0) fk uid (default_attrs ua)), st)"
  by (cases "client st") (auto simp: getAssignment_def Let_def)

text \<open>
  Claim C4. For every flag key, user id and user attributes, \<^verbatim>\<open>getAssignment\<close> on a service
  that has no client or is not initialised returns normally (the call does not throw), the
  object returned has \<^verbatim>\<open>assignment\<close> \<^verbatim>\<open>null\<close>, \<^verbatim>\<open>assignmentDetails\<close> \<^verbatim>\<open>null\<close> and
  \<^verbatim>\<open>initialized\<close> \<^verbatim>\<open>false\<close>, and the service is left as it was.
\<close>

theorem resolve_uninitialized:
  "client st = None \<or> \<not> initialized st \<Longrightarrow>
   \<exists>r. getAssignment clock fk uid ua st = (Inr r, st) \<and>
       field r ''assignment'' = JNull \<and>
       field r ''assignmentDetails'' = JNull \<and>
       field r ''initialized'' = JBool False"
  by (simp add: getAssignment_uninitialized uninitialized_result_def field_def)

theorem resolve_uninitialized_witness:
  "client new_EppoService = None \<and>
   (\<exists>r. getAssignment (\<lambda>i. ''2024-01-01T00:00:00.000Z'') (JStr ''flagX'') (JStr ''user1'') JUndefined
          new_EppoService = (Inr r, new_EppoService) \<and>
       field r ''assignment'' = JNull \<and>
       field r ''assignmentDetails'' = JNull \<and>
       field r ''initialized'' = JBool False)"
  using resolve_uninitialized [of new_EppoService "\<lambda>i. ''2024-01-01T00:00:00.000Z''"
      "JStr ''flagX''" "JStr ''user1''" JUndefined]
  by (simp add: new_EppoService_def)

section \<open>Capacity and eviction order of the assignment cache\<close>


lemma deliver_client [simp]: "client (deliver evs st) = client st"
  by (induction evs arbitrary: st) (simp_all add: logAssignment_def)

lemma deliver_initialized [simp]: "initialized (deliver evs st) = initialized st"
  by (induction evs arbitrary: st) (simp_all add: logAssignment_def)

lemma deliver_currentRequest [simp]: "currentRequest (deliver evs st) = currentRequest st"
  by (induction evs arbitrary: st) (simp_all add: logAssignment_def)

lemma getAssignment_returned:
  assumes "client st = Some c" and "initialized st"
    and "outcome (sdk_getStringAssignment c fk uid (default_attrs ua) JNull) = Inr v"
  shows "getAssignment clock fk uid ua st =
    (let st2 = deliver (events (sdk_getStringAssignment c fk uid (default_attrs ua) JNull))
                 (st\<lparr>assignmentLoggerCalled := False,
                     currentRequest := Some \<lparr>flagKey = fk, userId = uid, userAttributes = default_attrs ua\<rparr>\<rparr>);
         found = lookupStored (recentAssignments st2) uid fk;
         st4 = st2\<lparr>recentAssignments := snd found, currentRequest := None\<rparr>
     in (Inr [(''assignment'', v),
              (''flagKey'', fk),
              (''userId'', uid),
              (''userAttributes'', default_attrs ua),
              (''assignmentDetails'',
                 JObj (case fst found of Some d \<Rightarrow> d
                       | None \<Rightarrow> fallbackDetails (clock 0) fk uid v (st2\<lparr>recentAssignments := snd found\<rparr>))),
              (''clientInfo'', JObj (clientInfo c st4)),
              (''timestamp'', JStr (clock 1))],
         st4))"
  using assms by (simp add: getAssignment_def Let_def)

lemma getAssignment_threw:
  assumes "client st = Some c" and "initialized st"
    and "outcome (sdk_getStringAssignment c fk uid (default_attrs ua) JNull) = Inl e"
  shows "getAssignment clock fk uid ua st =
    (Inr [(''assignment'', JNull),
          (''flagKey'', fk),
          (''userId'', uid),
          (''userAttributes'', default_attrs ua),
          (''assignmentDetails'', JNull),
          (''error'', JStr (message e)),
          (''timestamp'', JStr (clock 0))],
     deliver (events (sdk_getStringAssignment c fk uid (default_attrs ua) JNull))
       (st\<lparr>assignmentLoggerCalled := False,
           currentRequest := Some \<lparr>flagKey = fk, userId = uid, userAttributes = default_attrs ua\<rparr>\<rparr>))"
  using assms by (simp add: getAssignment_def Let_def)




lemma ready_service_fields:
  "client ready_service = Some (disable_cache demo_client)" "initialized ready_service"
  "currentRequest ready_service = None" "recentAssignments ready_service = []"
  by (simp_all add: ready_service_def initializeEppo_def env_set_def new_EppoService_def)

lemma reachable_ready: "reachable ready_service"
  unfolding ready_service_def by (intro reachable.intros)











section \<open>The request context and the repair of records stored without a flag key\<close>

lemma stale_service_fields:
  "client (stale_service c) = Some (disable_cache c)" "initialized (stale_service c)"
  "currentRequest (stale_service c) = None"
  "recentAssignments (stale_service c) = [(''user1:undefined'', stale_record)]"
  by (simp_all add: stale_service_def initializeEppo_def env_set_def new_EppoService_def
        logAssignment_def sink_key_def sink_subject_def sink_flagKey_def assignmentToStore_def
        stale_event_def stale_record_def js_or_def field_def evict_def)

lemma field_map_set_same: "field (map_set obj k v) k = v"
  using map_get_set_same[of obj k v] by (simp add: field_def map_get_def)

lemma field_map_set_other: "k' \<noteq> k \<Longrightarrow> field (map_set obj k v) k' = field obj k'"
  using map_get_set_other[of k' k obj v] by (simp add: field_def map_get_def)

lemma undefinedKey_eq: "undefinedKey uid = assignmentKey uid JUndefined"
  by (simp add: undefinedKey_def assignmentKey_def)




lemma demo_call_eq:
  "sdk_getStringAssignment (disable_cache demo_client) fk uid ua d =
     \<lparr>events = [], outcome = Inr (JStr ''control'')\<rparr>"
  by (simp add: disable_cache_def demo_client_def demo_call_def)

lemma getAssignment_context_cleared:
  assumes "client st = Some c" and "initialized st"
    and "outcome (sdk_getStringAssignment c fk uid (default_attrs ua) JNull) = Inr v"
  shows "currentRequest (snd (getAssignment clock fk uid ua st)) = None"
  by (simp add: getAssignment_returned[OF assms] Let_def)

text \<open>
  Claim C3. \<^verbatim>\<open>getAssignment\<close> on an initialised service sets \<^verbatim>\<open>currentRequest\<close> to the
  flag key, user id and user attributes of the call before the string call of the client, and
  the claim has it \<^verbatim>\<open>null\<close> again when \<^verbatim>\<open>getAssignment\<close> returns, also when the client
  call throws. The slot is cleared on the normal path only (\<open>getAssignment_context_cleared\<close>).
  When the client call throws, the \<^verbatim>\<open>catch\<close> block returns the error object and leaves the
  slot as it was set: for the client that throws \<^verbatim>\<open>Network Error\<close>, the slot was empty before
  \<^verbatim>\<open>getAssignment("flagX", "user1")\<close> and holds that request after it.
\<close>

theorem resolve_context_kept_on_throw:
  "initialized (stale_service failing_client) \<and>
   currentRequest (stale_service failing_client) = None \<and>
   currentRequest (snd (getAssignment (\<lambda>i. demo_time) (JStr ''flagX'') (JStr ''user1'') JUndefined
       (stale_service failing_client))) =
     Some \<lparr>flagKey = JStr ''flagX'', userId = JStr ''user1'', userAttributes = JObj []\<rparr> \<and>
   result_field (fst (getAssignment (\<lambda>i. demo_time) (JStr ''flagX'') (JStr ''user1'') JUndefined
       (stale_service failing_client))) ''error'' = JStr ''Network Error''"
proof -
  have call: "outcome (sdk_getStringAssignment (disable_cache failing_client) (JStr ''flagX'')
      (JStr ''user1'') (default_attrs JUndefined) JNull) = Inl (JsError ''Network Error'' None)"
    "events (sdk_getStringAssignment (disable_cache failing_client) (JStr ''flagX'')
      (JStr ''user1'') (default_attrs JUndefined) JNull) = []"
    by (simp_all add: disable_cache_def failing_client_def failing_call_def)
  show ?thesis
    by (simp add: getAssignment_threw[OF stale_service_fields(1,2) call(1)] call(2)
          stale_service_fields default_attrs_def result_field_def field_def)
qed






section \<open>Events logged without a request context\<close>

lemma split_at_colon:
  "u @ CHR '':'' # f = a @ CHR '':'' # b \<Longrightarrow> CHR '':'' \<notin> set a \<Longrightarrow> CHR '':'' \<notin> set b
   \<Longrightarrow> u = a \<and> f = b"
proof (induction u arbitrary: a)
  case Nil
  then show ?case by (cases a) auto
next
  case (Cons y u)
  show ?case
  proof (cases a)
    case Nil
    with Cons.prems show ?thesis by auto
  next
    case (Cons x a')
    with Cons.prems Cons.IH[of a'] show ?thesis by auto
  qed
qed

lemma assignmentKey_unknown:
  "assignmentKey uid fk = ''unknown:unknown'' \<Longrightarrow> to_string uid = ''unknown'' \<and> to_string fk = ''unknown''"
  using split_at_colon[of "to_string uid" "to_string fk" "''unknown''" "''unknown''"]
  by (simp add: assignmentKey_def)

lemma undefinedKey_not_unknown: "undefinedKey uid \<noteq> ''unknown:unknown''"
  using split_at_colon[of "to_string uid" "''undefined''" "''unknown''" "''unknown''"]
  by (auto simp add: undefinedKey_def)

lemma evict_keeps_inserted:
  assumes "cache_ok m"
  shows "map_get (evict (map_set m k v)) k = Some v"
proof (cases "length (map_set m k v) > 100")
  case False
  then show ?thesis by (simp add: evict_def map_get_set_same)
next
  case True
  with assms have k: "k \<notin> set (map fst m)" and l: "length m = 100"
    by (auto simp: cache_ok_def length_map_set split: if_splits)
  from l obtain kv m' where m: "m = kv # m'" by (cases m) auto
  have ne: "k \<noteq> fst kv" using k m by auto
  have ms: "map_set m k v = kv # (m' @ [(k, v)])" using k by (simp add: map_set_absent m)
  have "evict (map_set m k v) = map_delete (map_set m k v) (fst kv)"
    using True by (simp add: evict_def first_key_def ms)
  then show ?thesis
    using ne by (simp add: map_get_delete_other map_get_set_same)
qed

lemma lookupStored_other_key:
  assumes "assignmentKey uid fk \<noteq> K" and "undefinedKey uid \<noteq> K"
  shows "fst (lookupStored (map_delete m K) uid fk) = fst (lookupStored m uid fk)"
    and "map_get (snd (lookupStored m uid fk)) K = map_get m K"
  using assms
  by (auto simp: lookupStored_def Let_def map_get_delete_other map_get_set_other split: option.splits)

text \<open>
  Claim C10. Let the payload of an event carry no \<^verbatim>\<open>flagKey\<close> and no \<^verbatim>\<open>subject\<close> (or falsy
  ones) and let no request context be live when the logger runs. Then the key the logger
  computes is the literal \<^verbatim>\<open>unknown:unknown\<close>, and on every reachable service the record is
  in the cache under that key afterwards, with \<^verbatim>\<open>flagKey\<close> \<^verbatim>\<open>unknown\<close>. The lookup of
  \<^verbatim>\<open>getAssignment\<close> (lines 107-125) reads the keys \<^verbatim>\<open>userId:flagKey\<close> and
  \<^verbatim>\<open>userId:undefined\<close> only. For every user id and flag key that are not both rendered as
  \<^verbatim>\<open>unknown\<close>, neither key is \<^verbatim>\<open>unknown:unknown\<close>: on every cache the lookup finds what it
  finds on the cache without the record, and it leaves the record under its key, so the record
  is neither found nor repaired.
\<close>

theorem sink_unknown_key:
  assumes "\<not> truthy (field a ''flagKey'')" and "\<not> truthy (field a ''subject'')"
    and "currentRequest st = None" and "reachable st"
  shows "sink_key a st = ''unknown:unknown'' \<and>
    map_get (recentAssignments (logAssignment now a st)) ''unknown:unknown'' =
      Some (assignmentToStore now a st) \<and>
    field (assignmentToStore now a st) ''flagKey'' = JStr ''unknown'' \<and>
    (\<forall>uid fk m. \<not> (to_string uid = ''unknown'' \<and> to_string fk = ''unknown'') \<longrightarrow>
       assignmentKey uid fk \<noteq> ''unknown:unknown'' \<and>
       undefinedKey uid \<noteq> ''unknown:unknown'' \<and>
       fst (lookupStored m uid fk) = fst (lookupStored (map_delete m ''unknown:unknown'') uid fk) \<and>
       map_get (snd (lookupStored m uid fk)) ''unknown:unknown'' = map_get m ''unknown:unknown'')"
proof -
  have key: "sink_key a st = ''unknown:unknown''"
    using assms(1-3) by (simp add: sink_key_def sink_subject_def sink_flagKey_def js_or_def)
  have ok: "cache_ok (recentAssignments st)" using assms(4) by (rule reachable_cache_ok)
  have stored: "map_get (recentAssignments (logAssignment now a st)) ''unknown:unknown'' =
      Some (assignmentToStore now a st)"
    using evict_keeps_inserted[OF ok] by (simp add: logAssignment_def key)
  have fk: "field (assignmentToStore now a st) ''flagKey'' = JStr ''unknown''"
    using assms(1,3)
    by (simp add: assignmentToStore_def field_map_set_same field_map_set_other sink_flagKey_def js_or_def)
  have later: "assignmentKey uid fk \<noteq> ''unknown:unknown'' \<and>
       undefinedKey uid \<noteq> ''unknown:unknown'' \<and>
       fst (lookupStored m uid fk) = fst (lookupStored (map_delete m ''unknown:unknown'') uid fk) \<and>
       map_get (snd (lookupStored m uid fk)) ''unknown:unknown'' = map_get m ''unknown:unknown''"
    if "\<not> (to_string uid = ''unknown'' \<and> to_string fk = ''unknown'')" for uid fk and m :: "jsobj jsmap"
  proof -
    have k1: "assignmentKey uid fk \<noteq> ''unknown:unknown''" using that assignmentKey_unknown by blast
    have k2: "undefinedKey uid \<noteq> ''unknown:unknown''" by (rule undefinedKey_not_unknown)
    show ?thesis using k1 k2 lookupStored_other_key[OF k1 k2, of m] by simp
  qed
  show ?thesis using key stored fk later by blast
qed

theorem sink_unknown_key_witness:
  "\<not> truthy (field bare_event ''flagKey'') \<and> \<not> truthy (field bare_event ''subject'') \<and>
   currentRequest ready_service = None \<and> reachable ready_service \<and>
   recentAssignments (logAssignment demo_time bare_event ready_service) =
     [(''unknown:unknown'',
       [(''variation'', JStr ''control''), (''flagKey'', JStr ''unknown''), (''timestamp'', JStr demo_time)])] \<and>
   map_get (recentAssignments (logAssignment demo_time bare_event ready_service)) ''unknown:unknown'' =
     Some (assignmentToStore demo_time bare_event ready_service) \<and>
   fst (lookupStored (recentAssignments (logAssignment demo_time bare_event ready_service))
          (JStr ''user1'') (JStr ''flagX'')) = None \<and>
   map_get (snd (lookupStored (recentAssignments (logAssignment demo_time bare_event ready_service))
          (JStr ''user1'') (JStr ''flagX''))) ''unknown:unknown'' =
     Some (assignmentToStore demo_time bare_event ready_service) \<and>
   recentAssignments (snd (getAssignment (\<lambda>i. demo_time) (JStr ''flagX'') (JStr ''user1'') JUndefined
      (logAssignment demo_time bare_event ready_service))) =
     recentAssignments (logAssignment demo_time bare_event ready_service) \<and>
   result_field (fst (getAssignment (\<lambda>i. demo_time) (JStr ''flagX'') (JStr ''user1'') JUndefined
      (logAssignment demo_time bare_event ready_service))) ''assignmentDetails'' =
     JObj (fallbackDetails demo_time (JStr ''flagX'') (JStr ''user1'') (JStr ''control'')
        ((logAssignment demo_time bare_event ready_service)\<lparr>assignmentLoggerCalled := False\<rparr>))"
proof -
  let ?st = "logAssignment demo_time bare_event ready_service"
  have h: "\<not> truthy (field bare_event ''flagKey'')" "\<not> truthy (field bare_event ''subject'')"
    by (simp_all add: bare_event_def field_def)
  note t = sink_unknown_key [OF h ready_service_fields(3) reachable_ready, of demo_time]
  from t have stored: "map_get (recentAssignments ?st) ''unknown:unknown'' =
      Some (assignmentToStore demo_time bare_event ready_service)"
    by blast
  have cache: "recentAssignments ?st =
     [(''unknown:unknown'',
       [(''variation'', JStr ''control''), (''flagKey'', JStr ''unknown''), (''timestamp'', JStr demo_time)])]"
    by (simp add: logAssignment_def sink_key_def sink_subject_def sink_flagKey_def
          assignmentToStore_def js_or_def field_def evict_def ready_service_fields bare_event_def)
  have real: "\<not> (to_string (JStr ''user1'') = ''unknown'' \<and> to_string (JStr ''flagX'') = ''unknown'')"
    by simp
  from t real have
    look: "fst (lookupStored (recentAssignments ?st) (JStr ''user1'') (JStr ''flagX'')) =
        fst (lookupStored (map_delete (recentAssignments ?st) ''unknown:unknown'') (JStr ''user1'') (JStr ''flagX''))"
    and kept: "map_get (snd (lookupStored (recentAssignments ?st) (JStr ''user1'') (JStr ''flagX''))) ''unknown:unknown'' =
        map_get (recentAssignments ?st) ''unknown:unknown''"
    by blast+
  have none: "fst (lookupStored (recentAssignments ?st) (JStr ''user1'') (JStr ''flagX'')) = None"
    unfolding look by (simp add: cache map_delete_def lookupStored_def map_get_def)
  have same: "snd (lookupStored (recentAssignments ?st) (JStr ''user1'') (JStr ''flagX'')) = recentAssignments ?st"
    by (simp add: cache lookupStored_def map_get_def assignmentKey_def undefinedKey_def)
  have fields: "client ?st = Some (disable_cache demo_client)" "initialized ?st"
    by (simp_all add: logAssignment_def ready_service_fields)
  have out: "outcome (sdk_getStringAssignment (disable_cache demo_client) (JStr ''flagX'') (JStr ''user1'')
      (default_attrs JUndefined) JNull) = Inr (JStr ''control'')"
    by (simp add: demo_call_eq)
  have g1: "recentAssignments (snd (getAssignment (\<lambda>i. demo_time) (JStr ''flagX'') (JStr ''user1'') JUndefined ?st)) =
      recentAssignments ?st"
    by (simp add: getAssignment_returned[OF fields out] demo_call_eq Let_def same)
  have g2: "result_field (fst (getAssignment (\<lambda>i. demo_time) (JStr ''flagX'') (JStr ''user1'') JUndefined ?st))
      ''assignmentDetails'' =
     JObj (fallbackDetails demo_time (JStr ''flagX'') (JStr ''user1'') (JStr ''control'')
        (?st\<lparr>assignmentLoggerCalled := False\<rparr>))"
    by (simp add: getAssignment_returned[OF fields out] demo_call_eq Let_def same none
          result_field_def field_def fallbackDetails_def)
  show ?thesis
    using h ready_service_fields(3) reachable_ready cache stored none kept g1 g2 by simp
qed

section \<open>The typed assignment operations\<close>

lemma typed_assignment_uninitialized:
  "client st = None \<or> \<not> initialized st \<Longrightarrow> typed_assignment method fk uid ua dv st = (Inr dv, st)"
  by (cases "client st") (auto simp: typed_assignment_def)

lemma typed_assignment_initialized:
  "client st = Some c \<Longrightarrow> initialized st \<Longrightarrow>
   typed_assignment method fk uid ua dv st =
     (Inr (case outcome (method c fk uid ua dv) of Inl error \<Rightarrow> dv | Inr assignment \<Rightarrow> assignment),
      deliver (events (method c fk uid ua dv)) st)"
  by (simp add: typed_assignment_def Let_def split: sum.splits)

lemma typed_assignment_cache_free:
  "fst (typed_assignment method fk uid ua dv (st\<lparr>recentAssignments := m\<rparr>)) =
   fst (typed_assignment method fk uid ua dv st)"
  by (cases "client st") (auto simp: typed_assignment_def Let_def split: sum.splits)

lemma failing_typed_calls:
  "sdk_getBooleanAssignment (disable_cache failing_client) fk uid ua d = failing_call"
  "sdk_getNumericAssignment (disable_cache failing_client) fk uid ua d = failing_call"
  by (simp_all add: disable_cache_def failing_client_def)

lemma firing_typed_calls:
  "sdk_getBooleanAssignment (disable_cache firing_client) fk uid ua d =
     \<lparr>events = [(demo_time, typed_event fk uid (JBool True))], outcome = Inr (JBool True)\<rparr>"
  "sdk_getNumericAssignment (disable_cache firing_client) fk uid ua d =
     \<lparr>events = [(demo_time, typed_event fk uid (JNum 7))], outcome = Inr (JNum 7)\<rparr>"
  by (simp_all add: disable_cache_def firing_client_def)

text \<open>
  Claim C9, as amended. \<^verbatim>\<open>getBooleanAssignment\<close> and \<^verbatim>\<open>getNumericAssignment\<close> return the
  default of the caller (\<^verbatim>\<open>false\<close> and \<^verbatim>\<open>0\<close> when the caller passes none) when the service has
  no client or is not initialised, and then leave the service as it was; they return that
  default when the typed call of the client throws. Their result never depends on the cache.
  Their own code does not touch the cache: the service after the call is the service after the
  logger has handled the events the client fired during the typed call, so the cache changes
  during the call exactly when the client fires the logger.
\<close>

theorem typed_resolve_default:
  "(client st = None \<or> \<not> initialized st \<longrightarrow>
      getBooleanAssignment fk uid ua dv st = (Inr (if dv = JUndefined then JBool False else dv), st) \<and>
      getNumericAssignment fk uid ua dv st = (Inr (if dv = JUndefined then JNum 0 else dv), st)) \<and>
   (client st = Some c \<and> initialized st \<and>
    outcome (sdk_getBooleanAssignment c fk uid (default_attrs ua)
               (if dv = JUndefined then JBool False else dv)) = Inl e \<longrightarrow>
      fst (getBooleanAssignment fk uid ua dv st) = Inr (if dv = JUndefined then JBool False else dv)) \<and>
   (client st = Some c \<and> initialized st \<and>
    outcome (sdk_getNumericAssignment c fk uid (default_attrs ua)
               (if dv = JUndefined then JNum 0 else dv)) = Inl e \<longrightarrow>
      fst (getNumericAssignment fk uid ua dv st) = Inr (if dv = JUndefined then JNum 0 else dv)) \<and>
   fst (getBooleanAssignment fk uid ua dv (st\<lparr>recentAssignments := m\<rparr>)) =
     fst (getBooleanAssignment fk uid ua dv st) \<and>
   fst (getNumericAssignment fk uid ua dv (st\<lparr>recentAssignments := m\<rparr>)) =
     fst (getNumericAssignment fk uid ua dv st) \<and>
   (client st = Some c \<and> initialized st \<longrightarrow>
      snd (getBooleanAssignment fk uid ua dv st) =
        deliver (events (sdk_getBooleanAssignment c fk uid (default_attrs ua)
                           (if dv = JUndefined then JBool False else dv))) st \<and>
      snd (getNumericAssignment fk uid ua dv st) =
        deliver (events (sdk_getNumericAssignment c fk uid (default_attrs ua)
                           (if dv = JUndefined then JNum 0 else dv))) st)"
  unfolding getBooleanAssignment_def getNumericAssignment_def
  by (intro conjI impI)
     (simp_all add: typed_assignment_uninitialized typed_assignment_initialized
        typed_assignment_cache_free del: disj_not1)

theorem typed_resolve_default_witness:
  "client new_EppoService = None \<and>
   getBooleanAssignment (JStr ''flagX'') (JStr ''user1'') JUndefined (JBool True) new_EppoService =
     (Inr (JBool True), new_EppoService) \<and>
   getNumericAssignment (JStr ''flagX'') (JStr ''user1'') JUndefined (JNum 5) new_EppoService =
     (Inr (JNum 5), new_EppoService) \<and>
   client (stale_service failing_client) = Some (disable_cache failing_client) \<and>
   initialized (stale_service failing_client) \<and>
   getBooleanAssignment (JStr ''flagX'') (JStr ''user1'') JUndefined (JBool True)
       (stale_service failing_client) = (Inr (JBool True), stale_service failing_client) \<and>
   getNumericAssignment (JStr ''flagX'') (JStr ''user1'') JUndefined (JNum 5)
       (stale_service failing_client) = (Inr (JNum 5), stale_service failing_client)"
proof -
  have n: "client new_EppoService = None" by (simp add: new_EppoService_def)
  note s = stale_service_fields(1,2)[of failing_client]
  have tb: "outcome (sdk_getBooleanAssignment (disable_cache failing_client) (JStr ''flagX'') (JStr ''user1'')
        (default_attrs JUndefined) (if JBool True = JUndefined then JBool False else JBool True)) =
      Inl (JsError ''Network Error'' None)"
    and tn: "outcome (sdk_getNumericAssignment (disable_cache failing_client) (JStr ''flagX'') (JStr ''user1'')
        (default_attrs JUndefined) (if JNum 5 = JUndefined then JNum 0 else JNum 5)) =
      Inl (JsError ''Network Error'' None)"
    by (simp_all add: failing_typed_calls failing_call_def)
  note b0 = typed_resolve_default [of new_EppoService "JStr ''flagX''" "JStr ''user1''" JUndefined "JBool True"]
  note n0 = typed_resolve_default [of new_EppoService "JStr ''flagX''" "JStr ''user1''" JUndefined "JNum 5"]
  note b1 = typed_resolve_default [of "stale_service failing_client" "JStr ''flagX''" "JStr ''user1''"
      JUndefined "JBool True" "disable_cache failing_client" "JsError ''Network Error'' None"]
  note n1 = typed_resolve_default [of "stale_service failing_client" "JStr ''flagX''" "JStr ''user1''"
      JUndefined "JNum 5" "disable_cache failing_client" "JsError ''Network Error'' None"]
  from b0 n have 1: "getBooleanAssignment (JStr ''flagX'') (JStr ''user1'') JUndefined (JBool True)
      new_EppoService = (Inr (JBool True), new_EppoService)" by simp
  from n0 n have 2: "getNumericAssignment (JStr ''flagX'') (JStr ''user1'') JUndefined (JNum 5)
      new_EppoService = (Inr (JNum 5), new_EppoService)" by simp
  from b1 s tb have 3: "fst (getBooleanAssignment (JStr ''flagX'') (JStr ''user1'') JUndefined (JBool True)
      (stale_service failing_client)) = Inr (JBool True)"
    and 4: "snd (getBooleanAssignment (JStr ''flagX'') (JStr ''user1'') JUndefined (JBool True)
      (stale_service failing_client)) = stale_service failing_client"
    by (simp_all add: failing_typed_calls failing_call_def)
  from n1 s tn have 5: "fst (getNumericAssignment (JStr ''flagX'') (JStr ''user1'') JUndefined (JNum 5)
      (stale_service failing_client)) = Inr (JNum 5)"
    and 6: "snd (getNumericAssignment (JStr ''flagX'') (JStr ''user1'') JUndefined (JNum 5)
      (stale_service failing_client)) = stale_service failing_client"
    by (simp_all add: failing_typed_calls failing_call_def)
  show ?thesis using n s 1 2 3 4 5 6 by (simp add: prod_eq_iff)
qed

text \<open>
  The claim as stated has the two operations never write the cache. The logger registered at
  initialisation belongs to the client: when the client fires it during a typed call, the call
  leaves a new record in the cache.
\<close>

theorem typed_resolve_cache_counterexample:
  "initialized (stale_service firing_client) \<and>
   recentAssignments (stale_service firing_client) = [(''user1:undefined'', stale_record)] \<and>
   recentAssignments (snd (getBooleanAssignment (JStr ''flagX'') (JStr ''user1'') JUndefined (JBool False)
       (stale_service firing_client))) =
     [(''user1:undefined'', stale_record),
      (''user1:flagX'', [(''subject'', JStr ''user1''), (''flagKey'', JStr ''flagX''),
                         (''variation'', JBool True), (''timestamp'', JStr demo_time)])] \<and>
   recentAssignments (snd (getNumericAssignment (JStr ''flagX'') (JStr ''user1'') JUndefined (JNum 0)
       (stale_service firing_client))) =
     [(''user1:undefined'', stale_record),
      (''user1:flagX'', [(''subject'', JStr ''user1''), (''flagKey'', JStr ''flagX''),
                         (''variation'', JNum 7), (''timestamp'', JStr demo_time)])]"
  by (simp add: getBooleanAssignment_def getNumericAssignment_def
        typed_assignment_initialized[OF stale_service_fields(1,2)] firing_typed_calls
        stale_service_fields logAssignment_def sink_key_def sink_subject_def sink_flagKey_def
        assignmentToStore_def js_or_def field_def evict_def typed_event_def)

section \<open>The attribute enricher\<close>

lemma map_of_filter_key:
  "map_of (filter (\<lambda>kv. P (fst kv)) xs) k = (if P k then map_of xs k else None)"
  by (induction xs) auto

lemma field_strip_nullish:
  "field (strip_nullish obj) k = (if nullish (field obj k) then JUndefined else field obj k)"
proof -
  have h: "map_of (strip_nullish obj) k = (if \<not> nullish (field obj k) then map_of obj k else None)"
    unfolding strip_nullish_def by (rule map_of_filter_key)
  show ?thesis by (simp add: field_def h)
qed



lemma template_convertible: "convertible uid \<Longrightarrow> template uid = Inr (to_string uid)"
  by (simp add: template_def)

lemma template_raises:
  "\<not> convertible uid \<Longrightarrow> template uid = Inl (JsError ''Cannot convert object to primitive value'' None)"
  by (simp add: template_def)

lemma get_prop_defined: "v \<noteq> JUndefined \<Longrightarrow> v \<noteq> JNull \<Longrightarrow> \<exists>x. get_prop v k = Inr x"
  by (cases v) (simp_all add: get_prop_def)

lemma default_attrs_defined: "default_attrs ea \<noteq> JUndefined"
  by (simp add: default_attrs_def)

lemma default_attrs_null: "default_attrs ea = JNull \<longleftrightarrow> ea = JNull"
  by (simp add: default_attrs_def)


lemma getUserAudiences_unconfigured:
  "\<not> env_set (ht_apiKey svc) \<Longrightarrow>
   getUserAudiences http_get svc uid = Inr [(''audiences'', JObj []), (''attributes'', JObj [])]"
  by (simp add: getUserAudiences_def)


lemma fallback_branch_unconfigured:
  "\<not> env_set (ht_apiKey svc) \<Longrightarrow> fallback_branch http_get svc uid"
  by (simp add: fallback_branch_def getUserAudiences_unconfigured field_def)



lemma lookup_audiences_bad_body:
  "convertible uid \<Longrightarrow> http_get (lookup_url svc uid) (lookup_config svc) = Inr resp \<Longrightarrow>
   nullish (data resp) \<Longrightarrow> \<exists>e. lookup_audiences http_get svc uid = Inl e"
  by (auto simp: lookup_audiences_def template_convertible get_prop_def nullish_def Let_def)

lemma enrich_fallback:
  assumes "fallback_branch http_get svc uid" and "convertible uid" and "ea \<noteq> JNull"
  shows "getEnrichedUserAttributes http_get svc uid ea =
    Inr (strip_nullish (fallback_attributes (spread (default_attrs ea))))"
proof -
  obtain x where gp: "get_prop (default_attrs ea) ''premium_subscriber'' = Inr x"
    using get_prop_defined[OF default_attrs_defined, of ea] assms(3) default_attrs_null by blast
  show ?thesis
    using assms(1,2)
    by (auto simp: fallback_branch_def getEnrichedUserAttributes_def Let_def template_convertible gp
             split: sum.splits)
qed

lemma enrich_fallback_object:
  "fallback_branch http_get svc uid \<Longrightarrow> convertible uid \<Longrightarrow>
   getEnrichedUserAttributes http_get svc uid (JObj ea) = Inr (strip_nullish (fallback_attributes ea))"
  using enrich_fallback[of http_get svc uid "JObj ea"] by (simp add: default_attrs_def)


lemma or_chain:
  "truthy (js_or (js_or (js_or (js_or p q) (JBool a)) (JBool b)) (JBool False)) \<longleftrightarrow>
     truthy p \<or> truthy q \<or> a \<or> b"
  "js_or (js_or (js_or (js_or p q) (JBool a)) (JBool b)) (JBool False) = JBool False \<longleftrightarrow>
     \<not> (truthy p \<or> truthy q \<or> a \<or> b)"
  "boolean_or_missing p \<Longrightarrow> boolean_or_missing q \<Longrightarrow>
     js_or (js_or (js_or (js_or p q) (JBool a)) (JBool b)) (JBool False) =
       JBool (truthy p \<or> truthy q \<or> a \<or> b)"
  "\<not> nullish (js_or (js_or (js_or (js_or p q) (JBool a)) (JBool b)) (JBool False))"
  by (auto simp: js_or_def boolean_or_missing_def nullish_def split: jsval.splits)

lemma fallback_fields:
  "field (fallback_attributes ea) ''premium_subscriber'' =
     js_or (js_or (js_or (js_or (field ea ''premium_subscriber'') (field ea ''isPremium''))
                         (JBool (field ea ''subscription_tier'' = JStr ''premium'')))
                  (JBool (field ea ''subscriptionTier'' = JStr ''premium'')))
           (JBool False)"
  "field (fallback_attributes ea) ''high_value_customer'' =
     js_or (js_or (js_or (js_or (field ea ''high_value_customer'') (field ea ''isHighValue''))
                         (JBool (field ea ''subscription_tier'' = JStr ''premium'')))
                  (JBool (field ea ''subscriptionTier'' = JStr ''premium'')))
           (JBool False)"
  "field (fallback_attributes ea) ''at_risk_churn'' =
     js_or (js_or (js_or (js_or (field ea ''at_risk_churn'') (field ea ''isAtRisk''))
                         (JBool (field ea ''subscription_tier'' = JStr ''free'')))
                  (JBool (field ea ''subscriptionTier'' = JStr ''free'')))
           (JBool False)"
  "field (fallback_attributes ea) ''subscription_tier'' = tier_source ea"
  "field (fallback_attributes ea) ''user_segment'' = segment_source ea"
  "field (fallback_attributes ea) ''country'' = field ea ''country''"
  "field (fallback_attributes ea) ''device_type'' = field ea ''device_type''"
  by (simp_all add: fallback_attributes_def obj_merge_def field_map_set_same field_map_set_other
        tier_source_def segment_source_def js_or_def)



lemma offline_fallback: "fallback_branch offline_get unconfigured uid"
  by (rule fallback_branch_unconfigured)
     (simp add: unconfigured_def new_HightouchService_def env_set_def)

lemma offline_enrich:
  "convertible uid \<Longrightarrow>
   getEnrichedUserAttributes offline_get unconfigured uid (JObj ea) =
     Inr (strip_nullish (fallback_attributes ea))"
  by (rule enrich_fallback_object[OF offline_fallback])

lemmas fallback_eval =
  fallback_attributes_def obj_merge_def field_def js_or_def strip_nullish_def nullish_def




lemma fallback_flags:
  assumes "fallback_branch http_get svc uid" and "convertible uid"
  shows "\<exists>out. getEnrichedUserAttributes http_get svc uid (JObj ea) = Inr out \<and>
    (truthy (field out ''premium_subscriber'') \<longleftrightarrow> flag_holds ea ''premium_subscriber'' ''isPremium'' ''premium'') \<and>
    (field out ''premium_subscriber'' = JBool False \<longleftrightarrow>
       \<not> flag_holds ea ''premium_subscriber'' ''isPremium'' ''premium'') \<and>
    (boolean_or_missing (field ea ''premium_subscriber'') \<and> boolean_or_missing (field ea ''isPremium'') \<longrightarrow>
       field out ''premium_subscriber'' = JBool (flag_holds ea ''premium_subscriber'' ''isPremium'' ''premium'')) \<and>
    (truthy (field out ''high_value_customer'') \<longleftrightarrow> flag_holds ea ''high_value_customer'' ''isHighValue'' ''premium'') \<and>
    (field out ''high_value_customer'' = JBool False \<longleftrightarrow>
       \<not> flag_holds ea ''high_value_customer'' ''isHighValue'' ''premium'') \<and>
    (boolean_or_missing (field ea ''high_value_customer'') \<and> boolean_or_missing (field ea ''isHighValue'') \<longrightarrow>
       field out ''high_value_customer'' = JBool (flag_holds ea ''high_value_customer'' ''isHighValue'' ''premium'')) \<and>
    (truthy (field out ''at_risk_churn'') \<longleftrightarrow> flag_holds ea ''at_risk_churn'' ''isAtRisk'' ''free'') \<and>
    (field out ''at_risk_churn'' = JBool False \<longleftrightarrow> \<not> flag_holds ea ''at_risk_churn'' ''isAtRisk'' ''free'') \<and>
    (boolean_or_missing (field ea ''at_risk_churn'') \<and> boolean_or_missing (field ea ''isAtRisk'') \<longrightarrow>
       field out ''at_risk_churn'' = JBool (flag_holds ea ''at_risk_churn'' ''isAtRisk'' ''free''))"
proof -
  have out: "getEnrichedUserAttributes http_get svc uid (JObj ea) =
      Inr (strip_nullish (fallback_attributes ea))"
    using assms by (rule enrich_fallback_object)
  have "field (strip_nullish (fallback_attributes ea)) ''premium_subscriber'' =
      field (fallback_attributes ea) ''premium_subscriber''"
    and "field (strip_nullish (fallback_attributes ea)) ''high_value_customer'' =
      field (fallback_attributes ea) ''high_value_customer''"
    and "field (strip_nullish (fallback_attributes ea)) ''at_risk_churn'' =
      field (fallback_attributes ea) ''at_risk_churn''"
    by (simp_all add: field_strip_nullish fallback_fields or_chain(4))
  then show ?thesis
    unfolding out flag_holds_def
    by (intro exI[of _ "strip_nullish (fallback_attributes ea)"] conjI impI refl)
       (simp_all add: fallback_fields or_chain)
qed

lemma fallback_flags_examples:
  "result_field (getEnrichedUserAttributes offline_get unconfigured (JStr ''user1'')
       (JObj [(''subscription_tier'', JStr ''free'')])) ''at_risk_churn'' = JBool True \<and>
   result_field (getEnrichedUserAttributes offline_get unconfigured (JStr ''user1'')
       (JObj [(''subscription_tier'', JStr ''free'')])) ''premium_subscriber'' = JBool False \<and>
   result_field (getEnrichedUserAttributes offline_get unconfigured (JStr ''user1'')
       (JObj [(''subscriptionTier'', JStr ''premium'')])) ''premium_subscriber'' = JBool True \<and>
   result_field (getEnrichedUserAttributes offline_get unconfigured (JStr ''user1'')
       (JObj [(''isPremium'', JBool True)])) ''premium_subscriber'' = JBool True"
  by (simp add: offline_enrich result_field_def fallback_eval)

text \<open>
  Claim C6. In the fallback branch the claim has each of \<^verbatim>\<open>premium_subscriber\<close>,
  \<^verbatim>\<open>high_value_customer\<close> and \<^verbatim>\<open>at_risk_churn\<close> the boolean \<^verbatim>\<open>true\<close> when one of its two
  explicit attributes holds or a tier attribute has the stated value, and \<^verbatim>\<open>false\<close>
  otherwise. The code computes that boolean when the two explicit attributes are booleans or
  absent (\<open>fallback_flags\<close>; the three inputs the claim names are in
  \<open>fallback_flags_examples\<close>). The chain of \<^verbatim>\<open>||\<close> of lines 111-125 yields its first truthy
  operand and does not make a boolean of it, although the comment of line 110 announces a
  boolean, the chain ends in \<^verbatim>\<open>|| false\<close>, and the branch above forces one with
  \<^verbatim>\<open>=== true\<close>. With the API key unset, the existing attributes
  \<^verbatim>\<open>{premium_subscriber: "yes"}\<close> satisfy the condition of the claim, and the output
  \<^verbatim>\<open>premium_subscriber\<close> is the string \<^verbatim>\<open>yes\<close>, not \<^verbatim>\<open>true\<close>; so it is with
  \<^verbatim>\<open>isPremium: true\<close> beside it.
\<close>

theorem fallback_flag_not_boolean:
  "flag_holds [(''premium_subscriber'', JStr ''yes'')] ''premium_subscriber'' ''isPremium'' ''premium'' \<and>
   getEnrichedUserAttributes offline_get unconfigured (JStr ''user1'')
       (JObj [(''premium_subscriber'', JStr ''yes'')]) =
     Inr [(''premium_subscriber'', JStr ''yes''), (''high_value_customer'', JBool False),
          (''at_risk_churn'', JBool False), (''_attribute_source'', JStr ''browser'')] \<and>
   getEnrichedUserAttributes offline_get unconfigured (JStr ''user1'')
       (JObj [(''premium_subscriber'', JStr ''yes''), (''isPremium'', JBool True)]) =
     Inr [(''premium_subscriber'', JStr ''yes''), (''isPremium'', JBool True),
          (''high_value_customer'', JBool False), (''at_risk_churn'', JBool False),
          (''_attribute_source'', JStr ''browser'')] \<and>
   result_field (getEnrichedUserAttributes offline_get unconfigured (JStr ''user1'')
       (JObj [(''premium_subscriber'', JStr ''yes'')])) ''premium_subscriber'' \<noteq> JBool True"
  by (simp add: offline_enrich flag_holds_def result_field_def fallback_eval)




section \<open>The campaign dispatcher\<close>






end
